theory Spec2Isabelle
  imports Complex_Main "HOL-Library.Sublist"
begin

section \<open>Build freshness and deployment of contracts in the Jest globals\<close>

text \<open>
  A shallow embedding of \<^verbatim>\<open>src/modules/jest/globals.ts\<close>. The module keeps
  process-wide mutable state (\<^verbatim>\<open>isSignerSet\<close>, \<^verbatim>\<open>config\<close>, the caches on the Jest
  global) and talks to collaborators that are not part of the module: the contracts
  bundle, the compile command, \<^verbatim>\<open>JSON.parse\<close> and the Taquito toolkit. The state is
  a record that every function takes and returns; the collaborators are the fields of a
  record of functions over an abstract world \<open>'w\<close> (file system and chain); every
  \<^verbatim>\<open>throw\<close> and every rejected promise is the \<open>Inl\<close> branch of a sum. Each call of a
  collaborator is appended to a trace, so that "is never called" and "is called once"
  are statements about the final state.
\<close>

subsection \<open>Thrown values\<close>

text \<open>A thrown value, with the two fields the module reads: its name and its message.\<close>

datatype exn = Exn (exn_name: string) (exn_message: string)

text \<open>\<^verbatim>\<open>new Error(m)\<close>\<close>

definition Error :: "string \<Rightarrow> exn" where
  "Error m = Exn ''Error'' m"

text \<open>The template literal \<^verbatim>\<open>${err}\<close>: \<^verbatim>\<open>Error.prototype.toString\<close>.\<close>

definition exn_to_string :: "exn \<Rightarrow> string" where
  "exn_to_string e =
     (if exn_name e = [] then exn_message e
      else if exn_message e = [] then exn_name e
      else exn_name e @ '': '' @ exn_message e)"

definition dq :: string where
  "dq = [CHR 0x22]"

definition nl :: string where
  "nl = [CHR 0x0A]"

definition tab :: string where
  "tab = [CHR 0x09]"

subsection \<open>Data\<close>

text \<open>
  \<^verbatim>\<open>TezosSigner\<close> is a faucet account or a secret key; \<^verbatim>\<open>isFaucet\<close> tells them
  apart, here the constructor does. Of the faucet account the module reads four fields.
\<close>

record FaucetAccount =
  email :: string
  password :: string
  mnemonic :: "string list"
  activation_code :: string

datatype TezosSigner = Faucet FaucetAccount | SecretKey string

text \<open>\<^verbatim>\<open>Array.prototype.join\<close>\<close>

fun join :: "string \<Rightarrow> string list \<Rightarrow> string" where
  "join sep [] = []"
| "join sep [x] = x"
| "join sep (x # y # ys) = x @ sep @ join sep (y # ys)"

text \<open>The run configuration; the module reads \<^verbatim>\<open>autoCompile\<close> only.\<close>

record Config =
  autoCompile :: bool

text \<open>The build record read by \<^verbatim>\<open>bundle.readBuildFile\<close>.\<close>

record BuildData =
  sourcePath :: string
  hash :: string
  michelson :: string

text \<open>
  What \<^verbatim>\<open>bundle.isBuildValid\<close> returns: one of the three \<^verbatim>\<open>BuildErrorCodes\<close> that
  the switch of \<^verbatim>\<open>validateContract\<close> names, or \<^verbatim>\<open>true\<close>.
\<close>

datatype BuildValidity = MICHELSON_MISSING | INVALID_HASH | INVALID_SOURCE_PATH | BuildValid

text \<open>
  The values that \<^verbatim>\<open>JSON.parse\<close> gives. It is typed \<^verbatim>\<open>any\<close>: the module declares
  its result \<^verbatim>\<open>Record<string, unknown>[]\<close>, and nothing checks that at run time. A
  number is a double: a rational, or an infinity for a literal out of range.
\<close>

datatype jsnumber = Finite rat | PosInfinity | NegInfinity

datatype json =
    JNull
  | JBool bool
  | JNum jsnumber
  | JStr string
  | JArr "json list"
  | JObj "(string \<times> json) list"

text \<open>
  An entry of \<^verbatim>\<open>_checkedContracts\<close> is such a value: the sentinel \<^verbatim>\<open>false\<close> of line
  76 is \<open>JBool False\<close>, and line 112 stores whatever was parsed. The module tests an
  entry, and the code it is about to deploy, for truthiness: \<^verbatim>\<open>null\<close>, \<^verbatim>\<open>false\<close>,
  zero and the empty string are falsy, and every array and object, the empty ones too, is
  truthy.
\<close>

fun truthy :: "json \<Rightarrow> bool" where
  "truthy JNull = False"
| "truthy (JBool b) = b"
| "truthy (JNum n) = (n \<noteq> Finite 0)"
| "truthy (JStr str) = (str \<noteq> [])"
| "truthy (JArr xs) = True"
| "truthy (JObj kvs) = True"

subsection \<open>Collaborators and their calls\<close>

datatype call =
    Call_exists string
  | Call_buildFileExists string
  | Call_readContract string
  | Call_generateHash string
  | Call_readBuildFile string
  | Call_isBuildValid string string
  | Call_readConfigFile
  | Call_compile string
  | Call_JSON_parse string
  | Call_importKey string
  | Call_setProvider string
  | Call_contract_at string
  | Call_originate
  | Call_op_contract

text \<open>
  The collaborators. Reads take the world; \<^verbatim>\<open>compile\<close>, \<^verbatim>\<open>importKey\<close> and
  \<^verbatim>\<open>originate\<close> also return the world they leave behind. \<open>'st\<close> is the storage
  handed to the origination, \<open>'op\<close> the origination operation and \<open>'h\<close> the contract
  handle. \<^verbatim>\<open>JSON.parse\<close> throws or gives a value. \<^verbatim>\<open>getContractFile\<close> and
  \<^verbatim>\<open>generateHash\<close> compute without reading the world.
\<close>

record ('w, 'st, 'op, 'h) collab =
  getContractFile :: "string \<Rightarrow> string"
  exists :: "'w \<Rightarrow> string \<Rightarrow> bool"
  buildFileExists :: "'w \<Rightarrow> string \<Rightarrow> bool"
  readContract :: "'w \<Rightarrow> string \<Rightarrow> exn + string"
  generateHash :: "string \<Rightarrow> string"
  readBuildFile :: "'w \<Rightarrow> string \<Rightarrow> exn + BuildData"
  isBuildValid :: "string \<Rightarrow> string \<Rightarrow> BuildData \<Rightarrow> BuildValidity"
  readConfigFile :: "'w \<Rightarrow> exn + Config"
  compile :: "string \<Rightarrow> 'w \<Rightarrow> exn option \<times> 'w"
  JSON_parse :: "string \<Rightarrow> exn + json"
  importKey :: "string \<Rightarrow> string \<Rightarrow> string \<Rightarrow> string \<Rightarrow> 'w \<Rightarrow> exn option \<times> 'w"
  newInMemorySigner :: "string \<Rightarrow> exn option"
  contract_at :: "'w \<Rightarrow> string \<Rightarrow> exn + 'h"
  originate :: "json \<Rightarrow> 'st \<Rightarrow> 'w \<Rightarrow> (exn + 'op) \<times> 'w"
  op_contract :: "'op \<Rightarrow> 'w \<Rightarrow> exn + 'h"

subsection \<open>The state of a run\<close>

text \<open>
  \<open>tezos_signer\<close> is the signer of the \<^verbatim>\<open>Tezos\<close> toolkit (none at start);
  \<open>env_USE_OLD_BUILD\<close> is \<^verbatim>\<open>process.env.USE_OLD_BUILD\<close>; \<open>config\<close> is the
  module variable, undefined at start; \<open>checkedContracts\<close>, \<open>tezosDeployedContracts\<close>
  and \<open>tezosDefaultSigner\<close> are the properties of the Jest global, the first two
  possibly undefined.
\<close>

record 'w state =
  world :: 'w
  env_USE_OLD_BUILD :: "string option"
  isSignerSet :: bool
  tezos_signer :: "TezosSigner option"
  config :: "Config option"
  checkedContracts :: "(string \<rightharpoonup> json) option"
  tezosDeployedContracts :: "(string \<rightharpoonup> string) option"
  tezosDefaultSigner :: TezosSigner
  trace :: "call list"

definition called :: "call \<Rightarrow> 'w state \<Rightarrow> 'w state" where
  "called e s = s\<lparr>trace := trace s @ [e]\<rparr>"

definition cache_of :: "'w state \<Rightarrow> (string \<rightharpoonup> json)" where
  "cache_of s = (case checkedContracts s of None \<Rightarrow> Map.empty | Some m \<Rightarrow> m)"

text \<open>
  The test of line 71: the entry of the cache for the name, when there is one and it is
  truthy.
\<close>

definition cache_hit :: "'w state \<Rightarrow> string \<Rightarrow> json option" where
  "cache_hit s contractName =
     (case cache_of s contractName of
        None \<Rightarrow> None
      | Some v \<Rightarrow> if truthy v then Some v else None)"

subsection \<open>Messages\<close>

definition edited_message :: "string \<Rightarrow> string" where
  "edited_message contractName =
     ''ERROR: It seems the contract '' @ dq @ contractName @ dq
     @ '' has been edited since last compilation.'' @ nl
     @ ''You can turn on '' @ dq @ ''autoCompile'' @ dq
     @ '' in config.json, compile it manually or ask the tests to be run on old version passing --old-build to the test command.''"

definition missing_source_message :: "string \<Rightarrow> string" where
  "missing_source_message contractName =
     ''ERROR: Specified contract '' @ dq @ contractName @ dq @ '' doesn't exist.''"

definition never_compiled_message :: "string \<Rightarrow> string" where
  "never_compiled_message contractName =
     ''ERROR: Specified contract '' @ dq @ contractName @ dq @ '' has never been compiled.''"

definition michelson_missing_message :: "string \<Rightarrow> string" where
  "michelson_missing_message contractName =
     ''ERROR: Invalid contract '' @ dq @ contractName @ dq @ '', Michelson code is missing!''"

definition source_path_message :: "string \<Rightarrow> string \<Rightarrow> string" where
  "source_path_message contractName buildSourcePath =
     ''ERROR: The compiled version for '' @ dq @ contractName @ dq
     @ '' was compiled from a different source path '' @ dq @ buildSourcePath @ dq @ ''!''"

definition parse_failed_message :: "string \<Rightarrow> exn \<Rightarrow> string" where
  "parse_failed_message contractName err =
     ''ERROR: Failed to parse JSON-Michelson for contract '' @ contractName
     @ '', given error was: '' @ exn_to_string err"

definition access_failed_message :: "string \<Rightarrow> string \<Rightarrow> exn \<Rightarrow> string" where
  "access_failed_message contractName contractAddress err =
     ''ERROR while accessing contract '' @ dq @ contractName @ dq @ '' at '' @ dq
     @ contractAddress @ dq @ '':'' @ nl @ nl @ tab @ exn_message err @ ''.''"

definition unable_message :: "string \<Rightarrow> string" where
  "unable_message contractName =
     ''Unable to process contract '' @ contractName @ '', deploy failed.''"

definition deploy_failed_message :: "string \<Rightarrow> exn \<Rightarrow> string" where
  "deploy_failed_message contractName err =
     ''ERROR while deploying contract '' @ contractName @ '':'' @ nl @ nl @ tab
     @ exn_message err @ ''.'' @ nl @ nl
     @ ''Please review test's storage configuration and make sure it matches contract's expected values.''"

subsection \<open>The functions of the module\<close>

text \<open>
  \<^verbatim>\<open>_setSigner\<close> (lines 25 to 39). The flag \<^verbatim>\<open>isSignerSet\<close> is one flag for the
  module, not one per signer.
\<close>

definition setSigner ::
  "('w, 'st, 'op, 'h) collab \<Rightarrow> TezosSigner \<Rightarrow> 'w state
     \<Rightarrow> (exn + unit) \<times> 'w state" where
  "setSigner c signer s =
     (if isSignerSet s then (Inr (), s)
      else
        (case signer of
           Faucet f \<Rightarrow>
             (case importKey c (email f) (password f) (join '' '' (mnemonic f))
                     (activation_code f) (world s) of
                (Some e, w) \<Rightarrow> (Inl e, (called (Call_importKey (email f)) s)\<lparr>world := w\<rparr>)
              | (None, w) \<Rightarrow>
                  (Inr (), (called (Call_importKey (email f)) s)
                     \<lparr>world := w, isSignerSet := True, tezos_signer := Some signer\<rparr>))
         | SecretKey k \<Rightarrow>
             (case newInMemorySigner c k of
                Some e \<Rightarrow> (Inl e, s)
              | None \<Rightarrow>
                  (Inr (), (called (Call_setProvider k) s)
                     \<lparr>isSignerSet := True, tezos_signer := Some signer\<rparr>))))"

text \<open>\<^verbatim>\<open>handleOutdatedBuildfile\<close> (lines 44 to 63).\<close>

definition handleOutdatedBuildfile ::
  "('w, 'st, 'op, 'h) collab \<Rightarrow> string \<Rightarrow> 'w state
     \<Rightarrow> (exn + unit) \<times> 'w state" where
  "handleOutdatedBuildfile c contractName s =
     (if env_USE_OLD_BUILD s = Some ''true'' then (Inr (), s)
      else
        (case (case config s of
                 Some cfg \<Rightarrow> (Inr cfg, s)
               | None \<Rightarrow>
                   (case readConfigFile c (world s) of
                      Inl e \<Rightarrow> (Inl e, called Call_readConfigFile s)
                    | Inr cfg \<Rightarrow>
                        (Inr cfg, (called Call_readConfigFile s)\<lparr>config := Some cfg\<rparr>))) of
           (Inl e, s1) \<Rightarrow> (Inl e, s1)
         | (Inr cfg, s1) \<Rightarrow>
             if \<not> autoCompile cfg then (Inl (Error (edited_message contractName)), s1)
             else
               (case compile c contractName (world s1) of
                  (Some e, w) \<Rightarrow> (Inl e, (called (Call_compile contractName) s1)\<lparr>world := w\<rparr>)
                | (None, w) \<Rightarrow>
                    (Inr (), (called (Call_compile contractName) s1)\<lparr>world := w\<rparr>))))"

text \<open>
  Lines 104 to 114 of \<^verbatim>\<open>validateContract\<close>: the payload of the build record is
  parsed and, when that succeeds, stored in the cache and returned.
\<close>

definition parseAndStore ::
  "('w, 'st, 'op, 'h) collab \<Rightarrow> string \<Rightarrow> BuildData \<Rightarrow> 'w state
     \<Rightarrow> (exn + json) \<times> 'w state" where
  "parseAndStore c contractName buildFile s =
     (case JSON_parse c (michelson buildFile) of
        Inl err \<Rightarrow>
          (Inl (Error (parse_failed_message contractName err)),
           called (Call_JSON_parse (michelson buildFile)) s)
      | Inr code \<Rightarrow>
          (Inr code,
           (called (Call_JSON_parse (michelson buildFile)) s)
             \<lparr>checkedContracts := Some ((cache_of s)(contractName \<mapsto> code))\<rparr>))"

text \<open>
  The switch of lines 92 to 102 of \<^verbatim>\<open>validateContract\<close>, on the value \<open>v\<close> that
  \<^verbatim>\<open>bundle.isBuildValid\<close> returned.
\<close>

definition switchBuildValid ::
  "('w, 'st, 'op, 'h) collab \<Rightarrow> string \<Rightarrow> BuildData \<Rightarrow> BuildValidity \<Rightarrow> 'w state
     \<Rightarrow> (exn + unit) \<times> 'w state" where
  "switchBuildValid c contractName buildFile v s =
     (case v of
        MICHELSON_MISSING \<Rightarrow> (Inl (Error (michelson_missing_message contractName)), s)
      | INVALID_HASH \<Rightarrow> handleOutdatedBuildfile c contractName s
      | INVALID_SOURCE_PATH \<Rightarrow>
          (Inl (Error (source_path_message contractName (sourcePath buildFile))), s)
      | BuildValid \<Rightarrow> (Inr (), s))"

text \<open>
  \<^verbatim>\<open>validateContract\<close> (lines 65 to 115). \<open>s1\<close> is the state after lines 66 to 68,
  \<open>s2\<close> after the sentinel of line 76, \<open>s6\<close> at the switch of line 92 and \<open>s7\<close> after it.
\<close>

definition validateContract ::
  "('w, 'st, 'op, 'h) collab \<Rightarrow> string \<Rightarrow> 'w state
     \<Rightarrow> (exn + json) \<times> 'w state" where
  "validateContract c contractName s0 =
     (let s1 = s0\<lparr>checkedContracts := Some (cache_of s0)\<rparr> in
      case cache_hit s1 contractName of
        Some v \<Rightarrow> (Inr v, s1)
      | None \<Rightarrow>
         (let s2 = s1\<lparr>checkedContracts := Some ((cache_of s1)(contractName \<mapsto> JBool False))\<rparr>;
              srcPath = getContractFile c contractName;
              s3 = called (Call_exists srcPath) s2
          in
          if \<not> exists c (world s3) srcPath
          then (Inl (Error (missing_source_message contractName)), s3)
          else
            (let s4 = called (Call_buildFileExists contractName) s3 in
             if \<not> buildFileExists c (world s4) contractName
             then (Inl (Error (never_compiled_message contractName)), s4)
             else
               (case readContract c (world s4) contractName of
                  Inl e \<Rightarrow> (Inl e, called (Call_readContract contractName) s4)
                | Inr contract \<Rightarrow>
                   (let h = generateHash c contract;
                        s5 = called (Call_generateHash contract)
                               (called (Call_readContract contractName) s4)
                    in
                    case readBuildFile c (world s5) contractName of
                      Inl e \<Rightarrow> (Inl e, called (Call_readBuildFile contractName) s5)
                    | Inr buildFile \<Rightarrow>
                       (let s6 = called (Call_isBuildValid srcPath h)
                                   (called (Call_readBuildFile contractName) s5)
                        in
                        case switchBuildValid c contractName buildFile
                               (isBuildValid c srcPath h buildFile) s6 of
                          (Inl e, s7) \<Rightarrow> (Inl e, s7)
                        | (Inr u, s7) \<Rightarrow> parseAndStore c contractName buildFile s7))))))"

text \<open>
  The test of line 121: the registry exists and its entry for the name is truthy, that
  is, a string that is not empty.
\<close>

definition deployed_address :: "'w state \<Rightarrow> string \<Rightarrow> string option" where
  "deployed_address s contractName =
     (case tezosDeployedContracts s of
        None \<Rightarrow> None
      | Some m \<Rightarrow>
          (case m contractName of
             None \<Rightarrow> None
           | Some a \<Rightarrow> if a = [] then None else Some a))"

text \<open>
  \<^verbatim>\<open>deployContract\<close> (lines 117 to 156). The signer argument is optional and
  defaults to \<^verbatim>\<open>tezosDefaultSigner\<close>. The call of line 142 is not awaited and its
  promise is dropped: the model runs it and ignores how it ends. The flag
  \<^verbatim>\<open>isSignerSet\<close> holds whenever line 142 is reached, so that the call returns at
  line 27 before any suspension.
\<close>

definition deployContract ::
  "('w, 'st, 'op, 'h) collab \<Rightarrow> string \<Rightarrow> 'st \<Rightarrow> TezosSigner option \<Rightarrow> 'w state
     \<Rightarrow> (exn + 'h) \<times> 'w state" where
  "deployContract c contractName storage signer_arg s0 =
     (let signer = (case signer_arg of None \<Rightarrow> tezosDefaultSigner s0 | Some sg \<Rightarrow> sg) in
      case setSigner c (tezosDefaultSigner s0) s0 of
        (Inl e, s1) \<Rightarrow> (Inl e, s1)
      | (Inr u, s1) \<Rightarrow>
         (case deployed_address s1 contractName of
            Some contractAddress \<Rightarrow>
              (case contract_at c (world s1) contractAddress of
                 Inl err \<Rightarrow>
                   (Inl (Error (access_failed_message contractName contractAddress err)),
                    called (Call_contract_at contractAddress) s1)
               | Inr res \<Rightarrow> (Inr res, called (Call_contract_at contractAddress) s1))
          | None \<Rightarrow>
              (case readConfigFile c (world s1) of
                 Inl e \<Rightarrow> (Inl e, called Call_readConfigFile s1)
               | Inr cfg \<Rightarrow>
                  (case validateContract c contractName (called Call_readConfigFile s1) of
                     (Inl e, s2) \<Rightarrow> (Inl e, s2)
                   | (Inr code, s2) \<Rightarrow>
                      if \<not> truthy code
                      then (Inl (Error (unable_message contractName)), s2)
                      else
                      (case setSigner c signer s2 of
                         (r, s3) \<Rightarrow>
                           (case originate c code storage (world s3) of
                              (Inl err, w) \<Rightarrow>
                                (Inl (Error (deploy_failed_message contractName err)),
                                 (called Call_originate s3)\<lparr>world := w\<rparr>)
                            | (Inr op, w) \<Rightarrow>
                               (let s4 = (called Call_originate s3)\<lparr>world := w\<rparr> in
                                case op_contract c op (world s4) of
                                  Inl err \<Rightarrow>
                                    (Inl (Error (deploy_failed_message contractName err)),
                                     called Call_op_contract s4)
                                | Inr res \<Rightarrow> (Inr res, called Call_op_contract s4))))))))"

subsection \<open>Notions used to state the properties\<close>

text \<open>
  \<open>at_switch c name s contract buildFile\<close>: a call of \<^verbatim>\<open>validateContract\<close> in state
  \<open>s\<close> gets as far as the switch of line 92: no truthy entry is in the cache, the source
  and the build file exist, and the two reads give \<open>contract\<close> and \<open>buildFile\<close>.
\<close>

definition at_switch ::
  "('w, 'st, 'op, 'h) collab \<Rightarrow> string \<Rightarrow> 'w state \<Rightarrow> string \<Rightarrow> BuildData \<Rightarrow> bool" where
  "at_switch c contractName s contract buildFile \<longleftrightarrow>
     cache_hit s contractName = None
     \<and> exists c (world s) (getContractFile c contractName)
     \<and> buildFileExists c (world s) contractName
     \<and> readContract c (world s) contractName = Inr contract
     \<and> readBuildFile c (world s) contractName = Inr buildFile"

text \<open>The value on which the switch of line 92 then branches.\<close>

definition verdict ::
  "('w, 'st, 'op, 'h) collab \<Rightarrow> string \<Rightarrow> string \<Rightarrow> BuildData \<Rightarrow> BuildValidity" where
  "verdict c contractName contract buildFile =
     isBuildValid c (getContractFile c contractName) (generateHash c contract) buildFile"

text \<open>The calls made on the way to the switch, and the state in which it is entered.\<close>

definition switch_calls ::
  "('w, 'st, 'op, 'h) collab \<Rightarrow> string \<Rightarrow> string \<Rightarrow> call list" where
  "switch_calls c contractName contract =
     [Call_exists (getContractFile c contractName),
      Call_buildFileExists contractName,
      Call_readContract contractName,
      Call_generateHash contract,
      Call_readBuildFile contractName,
      Call_isBuildValid (getContractFile c contractName) (generateHash c contract)]"

definition switch_state ::
  "('w, 'st, 'op, 'h) collab \<Rightarrow> string \<Rightarrow> string \<Rightarrow> 'w state \<Rightarrow> 'w state" where
  "switch_state c contractName contract s =
     s\<lparr>checkedContracts := Some ((cache_of s)(contractName \<mapsto> JBool False)),
       trace := trace s @ switch_calls c contractName contract\<rparr>"

text \<open>Counting the calls of one collaborator in the trace.\<close>

fun is_compile :: "call \<Rightarrow> bool" where
  "is_compile (Call_compile n) = True"
| "is_compile x = False"

fun is_originate :: "call \<Rightarrow> bool" where
  "is_originate Call_originate = True"
| "is_originate x = False"

fun is_readBuildFile :: "call \<Rightarrow> bool" where
  "is_readBuildFile (Call_readBuildFile n) = True"
| "is_readBuildFile x = False"

fun is_isBuildValid :: "call \<Rightarrow> bool" where
  "is_isBuildValid (Call_isBuildValid p h) = True"
| "is_isBuildValid x = False"

fun is_readConfigFile :: "call \<Rightarrow> bool" where
  "is_readConfigFile Call_readConfigFile = True"
| "is_readConfigFile x = False"

text \<open>The calls that only \<^verbatim>\<open>validateContract\<close> and what it calls make.\<close>

fun is_validation :: "call \<Rightarrow> bool" where
  "is_validation (Call_contract_at a) = False"
| "is_validation (Call_importKey e) = False"
| "is_validation (Call_setProvider k) = False"
| "is_validation Call_originate = False"
| "is_validation Call_op_contract = False"
| "is_validation Call_readConfigFile = False"
| "is_validation x = True"

definition calls :: "(call \<Rightarrow> bool) \<Rightarrow> 'w state \<Rightarrow> nat" where
  "calls P s = length (filter P (trace s))"

text \<open>
  The outcome of parsing the payload of a build record, as lines 104 to 114 report it.
\<close>

definition parsed_payload ::
  "('w, 'st, 'op, 'h) collab \<Rightarrow> string \<Rightarrow> BuildData \<Rightarrow> exn + json" where
  "parsed_payload c contractName buildFile =
     (case JSON_parse c (michelson buildFile) of
        Inl err \<Rightarrow> Inl (Error (parse_failed_message contractName err))
      | Inr code \<Rightarrow> Inr code)"

text \<open>
  The run configuration as \<^verbatim>\<open>handleOutdatedBuildfile\<close> gets it: the memoized one, or
  else the one read from the file.
\<close>

definition run_config :: "('w, 'st, 'op, 'h) collab \<Rightarrow> 'w state \<Rightarrow> exn + Config" where
  "run_config c s = (case config s of Some cfg \<Rightarrow> Inr cfg | None \<Rightarrow> readConfigFile c (world s))"

subsection \<open>An example run\<close>

text \<open>
  Modelled from the spec: \<^verbatim>\<open>bundle.isBuildValid\<close> is not among the sources. Section
  4.1 gives its decision order, first match wins: absent or empty code, then a different
  source path, then a different hash, else valid. It serves in the examples only; the
  properties below hold for every validator.
\<close>

definition classify :: "string \<Rightarrow> string \<Rightarrow> BuildData \<Rightarrow> BuildValidity" where
  "classify srcPath currentHash buildRecord =
     (if michelson buildRecord = [] then MICHELSON_MISSING
      else if sourcePath buildRecord \<noteq> srcPath then INVALID_SOURCE_PATH
      else if hash buildRecord \<noteq> currentHash then INVALID_HASH
      else BuildValid)"

text \<open>
  A world is the number of compilations done so far. The source of contract \<open>Foo\<close> has
  hash \<open>H2\<close>; its build record was made from an older text with hash \<open>H1\<close>, and a
  compilation replaces it.
\<close>

definition demo_build :: "nat \<Rightarrow> BuildData" where
  "demo_build w =
     \<lparr>sourcePath = ''contracts/Foo.ligo'',
      hash = (if w = 0 then ''H1'' else ''H2''),
      michelson = (if w = 0 then ''[1]'' else ''[2]'')\<rparr>"


definition demo_collab :: "(nat, string, string, string) collab" where
  "demo_collab =
     \<lparr>getContractFile = (\<lambda>n. ''contracts/'' @ n @ ''.ligo''),
      exists = (\<lambda>w p. p = ''contracts/Foo.ligo''),
      buildFileExists = (\<lambda>w n. n = ''Foo''),
      readContract = (\<lambda>w n. Inr ''edited source''),
      generateHash = (\<lambda>src. ''H2''),
      readBuildFile = (\<lambda>w n. Inr (demo_build w)),
      isBuildValid = classify,
      readConfigFile = (\<lambda>w. Inr \<lparr>autoCompile = True\<rparr>),
      compile = (\<lambda>n w. (None, Suc w)),
      JSON_parse = (\<lambda>txt. if txt = ''[1]'' then Inr (JArr [JNum (Finite 1)])
                          else if txt = ''[2]'' then Inr (JArr [JNum (Finite 2)])
                          else if txt = ''null'' then Inr JNull
                          else Inl (Exn ''SyntaxError'' ''Unexpected end of JSON input'')),
      importKey = (\<lambda>e p m a w. (None, w)),
      newInMemorySigner = (\<lambda>k. None),
      contract_at = (\<lambda>w a. if a = ''KT1Foo'' then Inr a
                             else Inl (Error ''Http error response: (404)'')),
      originate = (\<lambda>code st w. (Inr ''op1'', w)),
      op_contract = (\<lambda>op w. Inr ''KT1New'')\<rparr>"

definition demo_state :: "nat state" where
  "demo_state =
     \<lparr>world = 0, env_USE_OLD_BUILD = None, isSignerSet = False, tezos_signer = None,
      config = None, checkedContracts = None, tezosDeployedContracts = None,
      tezosDefaultSigner = SecretKey ''edsk-alice'', trace = []\<rparr>"

section \<open>Properties\<close>

subsection \<open>The way to the switch\<close>

lemma validateContract_to_switch:
  assumes "at_switch c name s contract bf"
  shows "validateContract c name s =
           (case switchBuildValid c name bf (verdict c name contract bf)
                   (switch_state c name contract s) of
              (Inl e, s7) \<Rightarrow> (Inl e, s7)
            | (Inr u, s7) \<Rightarrow> parseAndStore c name bf s7)"
  using assms
  by (simp add: validateContract_def at_switch_def Let_def cache_hit_def cache_of_def
        called_def switch_state_def switch_calls_def verdict_def)

lemma demo_at_switch:
  "at_switch demo_collab ''Foo'' demo_state ''edited source'' (demo_build 0)"
  by (simp add: at_switch_def cache_hit_def cache_of_def demo_state_def demo_collab_def)

subsection \<open>Frame lemmas\<close>

lemma calls_called:
  "calls P (called e s) = calls P s + (if P e then 1 else 0)"
  "calls P (s\<lparr>config := cf\<rparr>) = calls P s"
  "calls P (s\<lparr>world := w\<rparr>) = calls P s"
  "calls P (s\<lparr>checkedContracts := cc\<rparr>) = calls P s"
  "calls P (s\<lparr>isSignerSet := b\<rparr>) = calls P s"
  "calls P (s\<lparr>tezos_signer := sg\<rparr>) = calls P s"
  "calls P (s\<lparr>env_USE_OLD_BUILD := ov\<rparr>) = calls P s"
  by (simp_all add: calls_def called_def)

lemma called_fields:
  "world (called e s) = world s"
  "config (called e s) = config s"
  "env_USE_OLD_BUILD (called e s) = env_USE_OLD_BUILD s"
  "checkedContracts (called e s) = checkedContracts s"
  "tezosDeployedContracts (called e s) = tezosDeployedContracts s"
  "tezosDefaultSigner (called e s) = tezosDefaultSigner s"
  "isSignerSet (called e s) = isSignerSet s"
  "tezos_signer (called e s) = tezos_signer s"
  "trace (called e s) = trace s @ [e]"
  by (simp_all add: called_def)

lemma switch_state_calls:
  "calls is_readBuildFile (switch_state c name contract s) = calls is_readBuildFile s + 1"
  "calls is_isBuildValid (switch_state c name contract s) = calls is_isBuildValid s + 1"
  "calls is_compile (switch_state c name contract s) = calls is_compile s"
  "calls is_readConfigFile (switch_state c name contract s) = calls is_readConfigFile s"
  "calls is_originate (switch_state c name contract s) = calls is_originate s"
  by (simp_all add: switch_state_def switch_calls_def calls_def)

lemma parseAndStore_result:
  "fst (parseAndStore c name bf s) = parsed_payload c name bf"
  "trace (snd (parseAndStore c name bf s)) = trace s @ [Call_JSON_parse (michelson bf)]"
  "world (snd (parseAndStore c name bf s)) = world s"
  "config (snd (parseAndStore c name bf s)) = config s"
  "cache_of (snd (parseAndStore c name bf s)) name =
     (case JSON_parse c (michelson bf) of
        Inl err \<Rightarrow> cache_of s name
      | Inr code \<Rightarrow> Some code)"
  by (simp_all add: parseAndStore_def parsed_payload_def called_def cache_of_def
      split: sum.splits)

lemma parseAndStore_calls:
  "calls P (snd (parseAndStore c name bf s)) =
     calls P s + (if P (Call_JSON_parse (michelson bf)) then 1 else 0)"
  by (simp add: calls_def parseAndStore_result)

lemma handleOutdatedBuildfile_frame:
  assumes "handleOutdatedBuildfile c name s = (r, s')"
  shows "checkedContracts s' = checkedContracts s
       \<and> env_USE_OLD_BUILD s' = env_USE_OLD_BUILD s
       \<and> calls is_readBuildFile s' = calls is_readBuildFile s
       \<and> calls is_isBuildValid s' = calls is_isBuildValid s
       \<and> calls is_originate s' = calls is_originate s"
  using assms
  by (auto simp: handleOutdatedBuildfile_def called_def calls_def
      split: if_splits option.splits sum.splits prod.splits)

subsection \<open>Preconditions\<close>

text \<open>
  C7. When no truthy entry of the cache answers the call, \<^verbatim>\<open>validateContract\<close> first
  asks whether the source file exists and fails with the "doesn't exist" error if it
  does not; it then asks whether a build file exists and fails with the "has never been
  compiled" error if it does not. The two messages differ. In both cases the only calls
  made are these existence checks (no read of the contract, no hash, no read of the build
  file, no validator), the world is as before and the entry of the cache is the
  sentinel.
\<close>

theorem preconditions_checked_first:
  assumes "cache_hit s name = None"
  shows "(\<not> exists c (world s) (getContractFile c name) \<longrightarrow>
            validateContract c name s =
              (Inl (Error (missing_source_message name)),
               s\<lparr>checkedContracts := Some ((cache_of s)(name \<mapsto> JBool False)),
                 trace := trace s @ [Call_exists (getContractFile c name)]\<rparr>))
       \<and> (exists c (world s) (getContractFile c name) \<and> \<not> buildFileExists c (world s) name \<longrightarrow>
            validateContract c name s =
              (Inl (Error (never_compiled_message name)),
               s\<lparr>checkedContracts := Some ((cache_of s)(name \<mapsto> JBool False)),
                 trace := trace s @ [Call_exists (getContractFile c name),
                                     Call_buildFileExists name]\<rparr>))
       \<and> missing_source_message name \<noteq> never_compiled_message name"
  using assms
  by (simp add: validateContract_def Let_def cache_hit_def cache_of_def called_def
        missing_source_message_def never_compiled_message_def)

theorem preconditions_checked_first_witness:
  "cache_hit demo_state ''Foo'' = None
   \<and> validateContract (demo_collab\<lparr>exists := \<lambda>w p. False\<rparr>) ''Foo'' demo_state =
       (Inl (Error (missing_source_message ''Foo'')),
        demo_state\<lparr>checkedContracts := Some [''Foo'' \<mapsto> JBool False],
          trace := [Call_exists ''contracts/Foo.ligo'']\<rparr>)
   \<and> validateContract (demo_collab\<lparr>buildFileExists := \<lambda>w n. False\<rparr>) ''Foo'' demo_state =
       (Inl (Error (never_compiled_message ''Foo'')),
        demo_state\<lparr>checkedContracts := Some [''Foo'' \<mapsto> JBool False],
          trace := [Call_exists ''contracts/Foo.ligo'', Call_buildFileExists ''Foo'']\<rparr>)"
  using preconditions_checked_first
          [of demo_state "''Foo''" "demo_collab\<lparr>exists := \<lambda>w p. False\<rparr>"]
        preconditions_checked_first
          [of demo_state "''Foo''" "demo_collab\<lparr>buildFileExists := \<lambda>w n. False\<rparr>"]
  by (simp add: cache_hit_def cache_of_def demo_state_def demo_collab_def)

subsection \<open>The outcomes of the validator\<close>

text \<open>
  C6. When the validator answers \<^verbatim>\<open>MICHELSON_MISSING\<close>, \<^verbatim>\<open>validateContract\<close> fails
  at once with the "Michelson code is missing" error. Nothing recovers from it: whatever
  the override \<open>ov\<close> in the environment and whatever the memoized configuration \<open>cf\<close>,
  the error and the final state are the same, the state being the one in which the switch
  was entered; no compilation is started and the configuration file is not read.
\<close>

theorem michelson_missing_fails:
  assumes "at_switch c name s contract bf"
    and "verdict c name contract bf = MICHELSON_MISSING"
  shows "validateContract c name (s\<lparr>env_USE_OLD_BUILD := ov, config := cf\<rparr>) =
           (Inl (Error (michelson_missing_message name)),
            (switch_state c name contract s)\<lparr>env_USE_OLD_BUILD := ov, config := cf\<rparr>)
         \<and> calls is_compile (switch_state c name contract s) = calls is_compile s
         \<and> calls is_readConfigFile (switch_state c name contract s) = calls is_readConfigFile s"
proof -
  let ?s = "s\<lparr>env_USE_OLD_BUILD := ov, config := cf\<rparr>"
  have "at_switch c name ?s contract bf"
    using assms(1) by (simp add: at_switch_def cache_hit_def cache_of_def)
  then have "validateContract c name ?s =
      (Inl (Error (michelson_missing_message name)), switch_state c name contract ?s)"
    using assms(2) by (simp add: validateContract_to_switch switchBuildValid_def)
  moreover have "switch_state c name contract ?s =
      (switch_state c name contract s)\<lparr>env_USE_OLD_BUILD := ov, config := cf\<rparr>"
    by (simp add: switch_state_def cache_of_def)
  ultimately show ?thesis
    by (simp add: switch_state_calls)
qed

theorem michelson_missing_fails_witness:
  "at_switch (demo_collab\<lparr>readBuildFile := \<lambda>w n. Inr ((demo_build w)\<lparr>michelson := []\<rparr>)\<rparr>)
     ''Foo'' demo_state ''edited source'' ((demo_build 0)\<lparr>michelson := []\<rparr>)
   \<and> verdict (demo_collab\<lparr>readBuildFile := \<lambda>w n. Inr ((demo_build w)\<lparr>michelson := []\<rparr>)\<rparr>)
       ''Foo'' ''edited source'' ((demo_build 0)\<lparr>michelson := []\<rparr>) = MICHELSON_MISSING
   \<and> fst (validateContract
            (demo_collab\<lparr>readBuildFile := \<lambda>w n. Inr ((demo_build w)\<lparr>michelson := []\<rparr>)\<rparr>)
            ''Foo''
            (demo_state\<lparr>env_USE_OLD_BUILD := Some ''true'',
               config := Some \<lparr>autoCompile = True\<rparr>\<rparr>)) =
       Inl (Error (michelson_missing_message ''Foo''))"
proof -
  let ?c = "demo_collab\<lparr>readBuildFile := \<lambda>w n. Inr ((demo_build w)\<lparr>michelson := []\<rparr>)\<rparr>"
  let ?bf = "(demo_build 0)\<lparr>michelson := []\<rparr>"
  have h1: "at_switch ?c ''Foo'' demo_state ''edited source'' ?bf"
    by (simp add: at_switch_def cache_hit_def cache_of_def demo_state_def demo_collab_def)
  have h2: "verdict ?c ''Foo'' ''edited source'' ?bf = MICHELSON_MISSING"
    by (simp add: verdict_def demo_collab_def classify_def)
  show ?thesis
    using h1 h2
      michelson_missing_fails [OF h1 h2, where ov = "Some ''true''"
        and cf = "Some \<lparr>autoCompile = True\<rparr>"]
    by simp
qed

text \<open>
  C5, as the claim states it, fails: with the contract checked at
  \<^verbatim>\<open>contracts/Foo.ligo\<close> and a build record made from \<^verbatim>\<open>old/Foo.ligo\<close>, the message of
  the error does not contain the path that was checked.
\<close>

theorem source_path_mismatch_counterexample:
  "at_switch
     (demo_collab\<lparr>readBuildFile := \<lambda>w n. Inr ((demo_build w)\<lparr>sourcePath := ''old/Foo.ligo''\<rparr>)\<rparr>)
     ''Foo'' demo_state ''edited source'' ((demo_build 0)\<lparr>sourcePath := ''old/Foo.ligo''\<rparr>)
   \<and> verdict
       (demo_collab\<lparr>readBuildFile := \<lambda>w n. Inr ((demo_build w)\<lparr>sourcePath := ''old/Foo.ligo''\<rparr>)\<rparr>)
       ''Foo'' ''edited source'' ((demo_build 0)\<lparr>sourcePath := ''old/Foo.ligo''\<rparr>)
       = INVALID_SOURCE_PATH
   \<and> getContractFile
       (demo_collab\<lparr>readBuildFile := \<lambda>w n. Inr ((demo_build w)\<lparr>sourcePath := ''old/Foo.ligo''\<rparr>)\<rparr>)
       ''Foo'' = ''contracts/Foo.ligo''
   \<and> fst (validateContract
       (demo_collab\<lparr>readBuildFile := \<lambda>w n. Inr ((demo_build w)\<lparr>sourcePath := ''old/Foo.ligo''\<rparr>)\<rparr>)
       ''Foo'' demo_state)
       = Inl (Error (source_path_message ''Foo'' ''old/Foo.ligo''))
   \<and> \<not> sublist ''contracts/Foo.ligo'' (source_path_message ''Foo'' ''old/Foo.ligo'')"
proof -
  let ?c = "demo_collab\<lparr>readBuildFile := \<lambda>w n. Inr ((demo_build w)\<lparr>sourcePath := ''old/Foo.ligo''\<rparr>)\<rparr>"
  let ?bf = "(demo_build 0)\<lparr>sourcePath := ''old/Foo.ligo''\<rparr>"
  have h1: "at_switch ?c ''Foo'' demo_state ''edited source'' ?bf"
    by (simp add: at_switch_def cache_hit_def cache_of_def demo_state_def demo_collab_def)
  have h2: "verdict ?c ''Foo'' ''edited source'' ?bf = INVALID_SOURCE_PATH"
    by (simp add: verdict_def demo_collab_def classify_def demo_build_def)
  have h3: "getContractFile ?c ''Foo'' = ''contracts/Foo.ligo''"
    by (simp add: demo_collab_def)
  have h4: "fst (validateContract ?c ''Foo'' demo_state)
      = Inl (Error (source_path_message ''Foo'' ''old/Foo.ligo''))"
    using h2 by (simp add: validateContract_to_switch [OF h1] switchBuildValid_def)
  have h5: "\<not> sublist ''contracts/Foo.ligo'' (source_path_message ''Foo'' ''old/Foo.ligo'')"
    by (simp add: source_path_message_def dq_def sublist_Cons_right)
  show ?thesis
    using h1 h2 h3 h4 h5 by simp
qed

text \<open>
  C5, amended. When the validator answers \<^verbatim>\<open>INVALID_SOURCE_PATH\<close>,
  \<^verbatim>\<open>validateContract\<close> fails at once with an error whose message names the contract
  and the source path of the build record; the path that was checked is not part of the
  message. Nothing recovers from it: whatever the override \<open>ov\<close> and the memoized
  configuration \<open>cf\<close>, the error and the final state are the same, no compilation is
  started and the configuration file is not read.
\<close>

theorem source_path_mismatch_fails:
  assumes "at_switch c name s contract bf"
    and "verdict c name contract bf = INVALID_SOURCE_PATH"
  shows "validateContract c name (s\<lparr>env_USE_OLD_BUILD := ov, config := cf\<rparr>) =
           (Inl (Error (source_path_message name (sourcePath bf))),
            (switch_state c name contract s)\<lparr>env_USE_OLD_BUILD := ov, config := cf\<rparr>)
         \<and> sublist name (source_path_message name (sourcePath bf))
         \<and> sublist (sourcePath bf) (source_path_message name (sourcePath bf))
         \<and> calls is_compile (switch_state c name contract s) = calls is_compile s
         \<and> calls is_readConfigFile (switch_state c name contract s) = calls is_readConfigFile s"
proof -
  let ?s = "s\<lparr>env_USE_OLD_BUILD := ov, config := cf\<rparr>"
  have "at_switch c name ?s contract bf"
    using assms(1) by (simp add: at_switch_def cache_hit_def cache_of_def)
  then have "validateContract c name ?s =
      (Inl (Error (source_path_message name (sourcePath bf))), switch_state c name contract ?s)"
    using assms(2) by (simp add: validateContract_to_switch switchBuildValid_def)
  moreover have "switch_state c name contract ?s =
      (switch_state c name contract s)\<lparr>env_USE_OLD_BUILD := ov, config := cf\<rparr>"
    by (simp add: switch_state_def cache_of_def)
  moreover have "sublist name (source_path_message name (sourcePath bf))"
    unfolding source_path_message_def
    by (metis append.assoc sublist_appendI)
  moreover have "sublist (sourcePath bf) (source_path_message name (sourcePath bf))"
    unfolding source_path_message_def
    by (metis append.assoc sublist_appendI)
  ultimately show ?thesis
    by (simp add: switch_state_calls)
qed

theorem source_path_mismatch_fails_witness:
  "at_switch
     (demo_collab\<lparr>readBuildFile := \<lambda>w n. Inr ((demo_build w)\<lparr>sourcePath := ''old/Foo.ligo''\<rparr>)\<rparr>)
     ''Foo'' demo_state ''edited source'' ((demo_build 0)\<lparr>sourcePath := ''old/Foo.ligo''\<rparr>)
   \<and> verdict
       (demo_collab\<lparr>readBuildFile := \<lambda>w n. Inr ((demo_build w)\<lparr>sourcePath := ''old/Foo.ligo''\<rparr>)\<rparr>)
       ''Foo'' ''edited source'' ((demo_build 0)\<lparr>sourcePath := ''old/Foo.ligo''\<rparr>)
       = INVALID_SOURCE_PATH
   \<and> fst (validateContract
       (demo_collab\<lparr>readBuildFile := \<lambda>w n. Inr ((demo_build w)\<lparr>sourcePath := ''old/Foo.ligo''\<rparr>)\<rparr>)
       ''Foo''
       (demo_state\<lparr>env_USE_OLD_BUILD := Some ''true'',
          config := Some \<lparr>autoCompile = True\<rparr>\<rparr>))
       = Inl (Error (source_path_message ''Foo'' ''old/Foo.ligo''))
   \<and> sublist ''old/Foo.ligo'' (source_path_message ''Foo'' ''old/Foo.ligo'')"
proof -
  let ?c = "demo_collab\<lparr>readBuildFile := \<lambda>w n. Inr ((demo_build w)\<lparr>sourcePath := ''old/Foo.ligo''\<rparr>)\<rparr>"
  let ?bf = "(demo_build 0)\<lparr>sourcePath := ''old/Foo.ligo''\<rparr>"
  have h1: "at_switch ?c ''Foo'' demo_state ''edited source'' ?bf"
    by (simp add: at_switch_def cache_hit_def cache_of_def demo_state_def demo_collab_def)
  have h2: "verdict ?c ''Foo'' ''edited source'' ?bf = INVALID_SOURCE_PATH"
    by (simp add: verdict_def demo_collab_def classify_def demo_build_def)
  show ?thesis
    using h1 h2
      source_path_mismatch_fails [OF h1 h2, where ov = "Some ''true''"
        and cf = "Some \<lparr>autoCompile = True\<rparr>"]
    by simp
qed

subsection \<open>A build older than its source\<close>

text \<open>
  C1. When the validator answers \<^verbatim>\<open>INVALID_HASH\<close>, the validator has been asked
  once when \<^verbatim>\<open>validateContract\<close> ends, and:
  \<^item> if \<^verbatim>\<open>USE_OLD_BUILD\<close> is \<^verbatim>\<open>'true'\<close>, the result is the parsed payload of the
    stale build record, no compilation is started and the configuration is not read;
  \<^item> otherwise the configuration file is read only if no configuration is memoized, and a
    configuration that was read is memoized; if reading fails, its error is the result;
  \<^item> if \<^verbatim>\<open>autoCompile\<close> is off, the result is the "edited since last compilation" error
    and no compilation is started;
  \<^item> otherwise exactly one compilation is started; its error, if any, is the result, and
    else the result is the parsed payload of the build record that was read before.
\<close>

theorem stale_build_handling:
  assumes "at_switch c name s contract bf"
    and "verdict c name contract bf = INVALID_HASH"
  shows "let r = fst (validateContract c name s); s' = snd (validateContract c name s) in
     calls is_isBuildValid s' = calls is_isBuildValid s + 1
     \<and> (if env_USE_OLD_BUILD s = Some ''true''
        then r = parsed_payload c name bf
           \<and> calls is_compile s' = calls is_compile s
           \<and> calls is_readConfigFile s' = calls is_readConfigFile s
        else
          calls is_readConfigFile s' =
            calls is_readConfigFile s + (if config s = None then 1 else 0)
          \<and> (case run_config c s of
               Inl e \<Rightarrow> r = Inl e \<and> calls is_compile s' = calls is_compile s
             | Inr cfg \<Rightarrow>
                 config s' = Some cfg
                 \<and> (if \<not> autoCompile cfg
                    then r = Inl (Error (edited_message name))
                       \<and> calls is_compile s' = calls is_compile s
                    else calls is_compile s' = calls is_compile s + 1
                       \<and> r = (case fst (compile c name (world s)) of
                                Some e \<Rightarrow> Inl e
                              | None \<Rightarrow> parsed_payload c name bf))))"
proof -
  have v: "validateContract c name s =
      (case handleOutdatedBuildfile c name (switch_state c name contract s) of
         (Inl e, s7) \<Rightarrow> (Inl e, s7)
       | (Inr u, s7) \<Rightarrow> parseAndStore c name bf s7)"
    using assms by (simp add: validateContract_to_switch switchBuildValid_def)
  obtain eo w where cmp: "compile c name (world s) = (eo, w)"
    by (cases "compile c name (world s)")
  have w: "world (switch_state c name contract s) = world s"
    "config (switch_state c name contract s) = config s"
    "env_USE_OLD_BUILD (switch_state c name contract s) = env_USE_OLD_BUILD s"
    by (simp_all add: switch_state_def)
  show ?thesis
  proof (cases "env_USE_OLD_BUILD s = Some ''true''")
    case True
    then show ?thesis
      unfolding v Let_def
      by (simp add: handleOutdatedBuildfile_def w parseAndStore_result parseAndStore_calls
          switch_state_calls)
  next
    case False
    show ?thesis
    proof (cases "run_config c s")
      case (Inl e)
      then show ?thesis
        unfolding v Let_def using False
        by (simp add: handleOutdatedBuildfile_def w run_config_def switch_state_calls
            calls_called split: option.splits)
    next
      case (Inr cfg)
      then show ?thesis
        unfolding v Let_def using False cmp
        by (cases eo; cases "config s")
           (simp_all add: handleOutdatedBuildfile_def w run_config_def switch_state_calls
            parseAndStore_result parseAndStore_calls calls_called called_fields)
    qed
  qed
qed

theorem stale_build_handling_witness:
  "at_switch demo_collab ''Foo'' demo_state ''edited source'' (demo_build 0)
   \<and> verdict demo_collab ''Foo'' ''edited source'' (demo_build 0) = INVALID_HASH
   \<and> fst (validateContract demo_collab ''Foo'' (demo_state\<lparr>env_USE_OLD_BUILD := Some ''true''\<rparr>))
       = Inr (JArr [JNum (Finite 1)])
   \<and> calls is_compile
       (snd (validateContract demo_collab ''Foo'' (demo_state\<lparr>env_USE_OLD_BUILD := Some ''true''\<rparr>)))
       = 0
   \<and> fst (validateContract demo_collab ''Foo''
            (demo_state\<lparr>config := Some \<lparr>autoCompile = False\<rparr>\<rparr>))
       = Inl (Error (edited_message ''Foo''))
   \<and> calls is_compile
       (snd (validateContract demo_collab ''Foo''
              (demo_state\<lparr>config := Some \<lparr>autoCompile = False\<rparr>\<rparr>)))
       = 0
   \<and> fst (validateContract demo_collab ''Foo'' demo_state) = Inr (JArr [JNum (Finite 1)])
   \<and> calls is_compile (snd (validateContract demo_collab ''Foo'' demo_state)) = 1
   \<and> calls is_isBuildValid (snd (validateContract demo_collab ''Foo'' demo_state)) = 1"
proof -
  let ?a = "demo_state\<lparr>env_USE_OLD_BUILD := Some ''true''\<rparr>"
  let ?b = "demo_state\<lparr>config := Some \<lparr>autoCompile = False\<rparr>\<rparr>"
  have h2: "verdict demo_collab ''Foo'' ''edited source'' (demo_build 0) = INVALID_HASH"
    by (simp add: verdict_def demo_collab_def classify_def demo_build_def)
  have ha: "at_switch demo_collab ''Foo'' ?a ''edited source'' (demo_build 0)"
    and hb: "at_switch demo_collab ''Foo'' ?b ''edited source'' (demo_build 0)"
    using demo_at_switch by (simp_all add: at_switch_def cache_hit_def cache_of_def)
  have p: "parsed_payload demo_collab ''Foo'' (demo_build 0) = Inr (JArr [JNum (Finite 1)])"
    by (simp add: parsed_payload_def demo_collab_def demo_build_def)
  have z: "calls is_compile demo_state = 0" "calls is_isBuildValid demo_state = 0"
    "config demo_state = None" "env_USE_OLD_BUILD demo_state = None"
    "run_config demo_collab demo_state = Inr \<lparr>autoCompile = True\<rparr>"
    "compile demo_collab ''Foo'' (world demo_state) = (None, 1)"
    by (simp_all add: calls_def demo_state_def run_config_def demo_collab_def)
  show ?thesis
    using stale_build_handling [OF ha h2] stale_build_handling [OF hb h2]
      stale_build_handling [OF demo_at_switch h2] demo_at_switch h2 p z
    by (simp add: Let_def run_config_def calls_called)
qed

text \<open>
  C10. On the \<^verbatim>\<open>INVALID_HASH\<close> path, once \<^verbatim>\<open>handleOutdatedBuildfile\<close> has returned
  (the override was set, or the compilation succeeded), the rest of \<^verbatim>\<open>validateContract\<close>
  works on the build record \<open>bf\<close> that was read in the world of the start of the call: its
  payload is what is parsed, returned and stored in the cache. After
  \<^verbatim>\<open>handleOutdatedBuildfile\<close> the only call is \<^verbatim>\<open>JSON.parse\<close>, and the build file has
  been read once in the whole call. In the example the compilation replaces the build
  record, whose payload then parses to \<open>[2]\<close>, and the call returns and caches \<open>[1]\<close>.
\<close>

theorem stale_payload_returned:
  assumes "at_switch c name s contract bf"
    and "verdict c name contract bf = INVALID_HASH"
    and "handleOutdatedBuildfile c name (switch_state c name contract s) = (Inr (), s7)"
  shows "validateContract c name s = parseAndStore c name bf s7
       \<and> fst (validateContract c name s) = parsed_payload c name bf
       \<and> trace (snd (validateContract c name s)) = trace s7 @ [Call_JSON_parse (michelson bf)]
       \<and> calls is_readBuildFile (snd (validateContract c name s)) = calls is_readBuildFile s + 1
       \<and> cache_of (snd (validateContract c name s)) name =
           Some (case JSON_parse c (michelson bf) of
                   Inl err \<Rightarrow> JBool False
                 | Inr code \<Rightarrow> code)"
proof -
  have v: "validateContract c name s = parseAndStore c name bf s7"
    using assms by (simp add: validateContract_to_switch switchBuildValid_def)
  have f: "checkedContracts s7 = checkedContracts (switch_state c name contract s)"
      "calls is_readBuildFile s7 = calls is_readBuildFile (switch_state c name contract s)"
    using handleOutdatedBuildfile_frame [OF assms(3)] by simp_all
  have "cache_of s7 name = Some (JBool False)"
    using f(1) by (simp add: cache_of_def switch_state_def)
  then show ?thesis
    using v f(2)
    by (simp add: parseAndStore_result parseAndStore_calls switch_state_calls
        split: sum.splits)
qed

theorem stale_payload_returned_witness:
  "at_switch demo_collab ''Foo'' demo_state ''edited source'' (demo_build 0)
   \<and> verdict demo_collab ''Foo'' ''edited source'' (demo_build 0) = INVALID_HASH
   \<and> fst (handleOutdatedBuildfile demo_collab ''Foo''
            (switch_state demo_collab ''Foo'' ''edited source'' demo_state)) = Inr ()
   \<and> fst (validateContract demo_collab ''Foo'' demo_state) = Inr (JArr [JNum (Finite 1)])
   \<and> cache_of (snd (validateContract demo_collab ''Foo'' demo_state)) ''Foo''
       = Some (JArr [JNum (Finite 1)])
   \<and> world (snd (validateContract demo_collab ''Foo'' demo_state)) = 1
   \<and> readBuildFile demo_collab 1 ''Foo'' = Inr (demo_build 1)
   \<and> JSON_parse demo_collab (michelson (demo_build 1)) = Inr (JArr [JNum (Finite 2)])
   \<and> trace (snd (validateContract demo_collab ''Foo'' demo_state)) =
       [Call_exists ''contracts/Foo.ligo'', Call_buildFileExists ''Foo'',
        Call_readContract ''Foo'', Call_generateHash ''edited source'',
        Call_readBuildFile ''Foo'', Call_isBuildValid ''contracts/Foo.ligo'' ''H2'',
        Call_readConfigFile, Call_compile ''Foo'', Call_JSON_parse ''[1]'']"
proof -
  let ?s6 = "switch_state demo_collab ''Foo'' ''edited source'' demo_state"
  let ?s7 = "(called (Call_compile ''Foo'')
               ((called Call_readConfigFile ?s6)\<lparr>config := Some \<lparr>autoCompile = True\<rparr>\<rparr>))
             \<lparr>world := 1\<rparr>"
  have h2: "verdict demo_collab ''Foo'' ''edited source'' (demo_build 0) = INVALID_HASH"
    by (simp add: verdict_def demo_collab_def classify_def demo_build_def)
  have h3: "handleOutdatedBuildfile demo_collab ''Foo'' ?s6 = (Inr (), ?s7)"
    by (simp add: handleOutdatedBuildfile_def switch_state_def demo_state_def demo_collab_def
        called_def)
  have t: "trace ?s7 =
       [Call_exists ''contracts/Foo.ligo'', Call_buildFileExists ''Foo'',
        Call_readContract ''Foo'', Call_generateHash ''edited source'',
        Call_readBuildFile ''Foo'', Call_isBuildValid ''contracts/Foo.ligo'' ''H2'',
        Call_readConfigFile, Call_compile ''Foo'']"
    by (simp add: switch_state_def switch_calls_def demo_state_def demo_collab_def called_def)
  have p: "parsed_payload demo_collab ''Foo'' (demo_build 0) = Inr (JArr [JNum (Finite 1)])"
    "JSON_parse demo_collab (michelson (demo_build 0)) = Inr (JArr [JNum (Finite 1)])"
    "michelson (demo_build 0) = ''[1]''"
    "readBuildFile demo_collab 1 ''Foo'' = Inr (demo_build 1)"
    "JSON_parse demo_collab (michelson (demo_build 1)) = Inr (JArr [JNum (Finite 2)])"
    by (simp_all add: parsed_payload_def demo_collab_def demo_build_def)
  show ?thesis
    using stale_payload_returned [OF demo_at_switch h2 h3] demo_at_switch h2 h3 t p
    by (simp add: parseAndStore_result)
qed

subsection \<open>A payload that does not parse\<close>

lemma switchBuildValid_frame:
  assumes "switchBuildValid c name bf v s = (r, s')"
  shows "checkedContracts s' = checkedContracts s
       \<and> env_USE_OLD_BUILD s' = env_USE_OLD_BUILD s
       \<and> calls is_readBuildFile s' = calls is_readBuildFile s
       \<and> calls is_originate s' = calls is_originate s"
  using assms handleOutdatedBuildfile_frame [of c name s r s']
  by (cases v) (auto simp: switchBuildValid_def)

lemma after_switch_fst:
  "fst (case x of (Inl e, s7) \<Rightarrow> (Inl e, s7) | (Inr u, s7) \<Rightarrow> parseAndStore c name bf s7) =
     (case fst x of Inl e \<Rightarrow> Inl e | Inr u \<Rightarrow> parsed_payload c name bf)"
  by (cases x; cases "fst x") (auto simp: parseAndStore_result)

lemma after_switch_cache:
  assumes "cache_of (snd x) name = Some (JBool False)"
  shows "cache_of (snd (case x of (Inl e, s7) \<Rightarrow> (Inl e, s7)
                        | (Inr u, s7) \<Rightarrow> parseAndStore c name bf s7)) name =
     Some (case fst x of
             Inl e \<Rightarrow> JBool False
           | Inr u \<Rightarrow> (case JSON_parse c (michelson bf) of
                          Inl err \<Rightarrow> JBool False
                        | Inr code \<Rightarrow> code))"
  using assms
  by (cases x; cases "fst x") (auto simp: parseAndStore_result split: sum.splits)

lemma switch_state_cache:
  "cache_of (switch_state c name contract s) name = Some (JBool False)"
  by (simp add: switch_state_def cache_of_def)

lemma switchBuildValid_cache:
  "cache_of (snd (switchBuildValid c name bf v s)) = cache_of s"
  using switchBuildValid_frame [of c name bf v s "fst (switchBuildValid c name bf v s)"
      "snd (switchBuildValid c name bf v s)"]
  by (simp add: cache_of_def)

text \<open>
  C8. When the payload of the build record does not parse, a call that gets as far as
  the switch fails and leaves the sentinel in the cache, whatever the validator said.
  When the switch lets the call go on (the build is valid, or it is stale and
  \<^verbatim>\<open>handleOutdatedBuildfile\<close> returned), the error is the "Failed to parse
  JSON-Michelson" error; its message contains the name of the contract and the text of
  the parse error, and it is none of the other messages of \<^verbatim>\<open>validateContract\<close>.
\<close>

theorem malformed_payload_reported:
  assumes "at_switch c name s contract bf"
    and "JSON_parse c (michelson bf) = Inl err"
  shows "isl (fst (validateContract c name s))
       \<and> cache_of (snd (validateContract c name s)) name = Some (JBool False)
       \<and> (fst (switchBuildValid c name bf (verdict c name contract bf)
                 (switch_state c name contract s)) = Inr ()
            \<longrightarrow> fst (validateContract c name s) = Inl (Error (parse_failed_message name err)))
       \<and> sublist name (parse_failed_message name err)
       \<and> sublist (exn_to_string err) (parse_failed_message name err)
       \<and> parse_failed_message name err \<notin>
           {missing_source_message n1, never_compiled_message n2, michelson_missing_message n3,
            source_path_message n4 p4, edited_message n5}"
proof -
  let ?x = "switchBuildValid c name bf (verdict c name contract bf)
              (switch_state c name contract s)"
  have v: "validateContract c name s =
      (case ?x of (Inl e, s7) \<Rightarrow> (Inl e, s7) | (Inr u, s7) \<Rightarrow> parseAndStore c name bf s7)"
    using assms(1) by (rule validateContract_to_switch)
  have c: "cache_of (snd ?x) name = Some (JBool False)"
    by (simp add: switchBuildValid_cache switch_state_cache)
  have p: "parsed_payload c name bf = Inl (Error (parse_failed_message name err))"
    using assms(2) by (simp add: parsed_payload_def)
  have 1: "isl (fst (validateContract c name s))"
    unfolding v after_switch_fst p by (simp split: sum.splits)
  have 2: "cache_of (snd (validateContract c name s)) name = Some (JBool False)"
    unfolding v after_switch_cache [OF c] using assms(2) by (simp split: sum.splits)
  have 3: "fst ?x = Inr () \<longrightarrow>
      fst (validateContract c name s) = Inl (Error (parse_failed_message name err))"
    unfolding v after_switch_fst p by simp
  have 4: "sublist name (parse_failed_message name err)"
    unfolding parse_failed_message_def by (metis append.assoc sublist_appendI)
  have 5: "sublist (exn_to_string err) (parse_failed_message name err)"
    unfolding parse_failed_message_def by (metis append.assoc append_Nil2 sublist_appendI)
  have 6: "parse_failed_message name err \<notin>
           {missing_source_message n1, never_compiled_message n2, michelson_missing_message n3,
            source_path_message n4 p4, edited_message n5}"
    by (simp add: parse_failed_message_def missing_source_message_def
        never_compiled_message_def michelson_missing_message_def source_path_message_def
        edited_message_def)
  show ?thesis using 1 2 3 4 5 6 by simp
qed

theorem malformed_payload_reported_witness:
  "at_switch (demo_collab\<lparr>readBuildFile := \<lambda>w n. Inr ((demo_build w)\<lparr>michelson := ''[1''\<rparr>)\<rparr>)
     ''Foo'' (demo_state\<lparr>env_USE_OLD_BUILD := Some ''true''\<rparr>) ''edited source''
     ((demo_build 0)\<lparr>michelson := ''[1''\<rparr>)
   \<and> JSON_parse (demo_collab\<lparr>readBuildFile := \<lambda>w n. Inr ((demo_build w)\<lparr>michelson := ''[1''\<rparr>)\<rparr>)
       (michelson ((demo_build 0)\<lparr>michelson := ''[1''\<rparr>))
       = Inl (Exn ''SyntaxError'' ''Unexpected end of JSON input'')
   \<and> fst (validateContract
            (demo_collab\<lparr>readBuildFile := \<lambda>w n. Inr ((demo_build w)\<lparr>michelson := ''[1''\<rparr>)\<rparr>)
            ''Foo'' (demo_state\<lparr>env_USE_OLD_BUILD := Some ''true''\<rparr>))
       = Inl (Error (parse_failed_message ''Foo''
                       (Exn ''SyntaxError'' ''Unexpected end of JSON input'')))
   \<and> cache_of (snd (validateContract
            (demo_collab\<lparr>readBuildFile := \<lambda>w n. Inr ((demo_build w)\<lparr>michelson := ''[1''\<rparr>)\<rparr>)
            ''Foo'' (demo_state\<lparr>env_USE_OLD_BUILD := Some ''true''\<rparr>))) ''Foo''
       = Some (JBool False)
   \<and> parse_failed_message ''Foo'' (Exn ''SyntaxError'' ''Unexpected end of JSON input'')
       = ''ERROR: Failed to parse JSON-Michelson for contract Foo, given error was: SyntaxError: Unexpected end of JSON input''"
proof -
  let ?c = "demo_collab\<lparr>readBuildFile := \<lambda>w n. Inr ((demo_build w)\<lparr>michelson := ''[1''\<rparr>)\<rparr>"
  let ?bf = "(demo_build 0)\<lparr>michelson := ''[1''\<rparr>"
  let ?s = "demo_state\<lparr>env_USE_OLD_BUILD := Some ''true''\<rparr>"
  have h1: "at_switch ?c ''Foo'' ?s ''edited source'' ?bf"
    by (simp add: at_switch_def cache_hit_def cache_of_def demo_state_def demo_collab_def)
  have h2: "JSON_parse ?c (michelson ?bf) = Inl (Exn ''SyntaxError'' ''Unexpected end of JSON input'')"
    by (simp add: demo_collab_def)
  have h3: "fst (switchBuildValid ?c ''Foo'' ?bf (verdict ?c ''Foo'' ''edited source'' ?bf)
                 (switch_state ?c ''Foo'' ''edited source'' ?s)) = Inr ()"
    by (simp add: switchBuildValid_def verdict_def demo_collab_def classify_def demo_build_def
        handleOutdatedBuildfile_def switch_state_def)
  have h4: "parse_failed_message ''Foo'' (Exn ''SyntaxError'' ''Unexpected end of JSON input'')
       = ''ERROR: Failed to parse JSON-Michelson for contract Foo, given error was: SyntaxError: Unexpected end of JSON input''"
    by (simp add: parse_failed_message_def exn_to_string_def)
  show ?thesis
    using malformed_payload_reported [OF h1 h2] h1 h2 h3 h4 by simp
qed

subsection \<open>A call that is not answered from the cache\<close>





lemma parseAndStore_frame:
  "env_USE_OLD_BUILD (snd (parseAndStore c name bf s)) = env_USE_OLD_BUILD s"
  "tezosDeployedContracts (snd (parseAndStore c name bf s)) = tezosDeployedContracts s"
  "n \<noteq> name \<Longrightarrow> cache_of (snd (parseAndStore c name bf s)) n = cache_of s n"
  by (simp_all add: parseAndStore_def called_def cache_of_def split: sum.splits)

lemma validateContract_miss:
  assumes "cache_hit s name = None"
  shows "validateContract c name s =
    (let s2 = s\<lparr>checkedContracts := Some ((cache_of s)(name \<mapsto> JBool False))\<rparr>;
         p = getContractFile c name in
     if \<not> exists c (world s) p
     then (Inl (Error (missing_source_message name)), called (Call_exists p) s2)
     else if \<not> buildFileExists c (world s) name
     then (Inl (Error (never_compiled_message name)),
           called (Call_buildFileExists name) (called (Call_exists p) s2))
     else case readContract c (world s) name of
       Inl e \<Rightarrow> (Inl e, called (Call_readContract name)
                    (called (Call_buildFileExists name) (called (Call_exists p) s2)))
     | Inr contract \<Rightarrow>
        (case readBuildFile c (world s) name of
           Inl e \<Rightarrow> (Inl e, called (Call_readBuildFile name) (called (Call_generateHash contract)
                     (called (Call_readContract name)
                       (called (Call_buildFileExists name) (called (Call_exists p) s2)))))
         | Inr bf \<Rightarrow>
            (case switchBuildValid c name bf (verdict c name contract bf)
                    (switch_state c name contract s) of
               (Inl e, s7) \<Rightarrow> (Inl e, s7)
             | (Inr u, s7) \<Rightarrow> parseAndStore c name bf s7)))"
  using assms
  by (simp add: validateContract_def Let_def cache_hit_def cache_of_def called_def
      switch_state_def switch_calls_def verdict_def split: sum.splits)

lemma switch_state_fields:
  "world (switch_state c name contract s) = world s"
  "env_USE_OLD_BUILD (switch_state c name contract s) = env_USE_OLD_BUILD s"
  "config (switch_state c name contract s) = config s"
  "tezosDeployedContracts (switch_state c name contract s) = tezosDeployedContracts s"
  "run_config c (switch_state c name contract s) = run_config c s"
  "trace (switch_state c name contract s) = trace s @ switch_calls c name contract"
  "n \<noteq> name \<Longrightarrow> cache_of (switch_state c name contract s) n = cache_of s n"
  by (simp_all add: switch_state_def run_config_def cache_of_def split: option.splits)



lemma after_switch_snd:
  "snd (case x of (Inl e, s7) \<Rightarrow> (Inl e, s7) | (Inr u, s7) \<Rightarrow> parseAndStore c name bf s7) =
     (case fst x of Inl e \<Rightarrow> snd x | Inr u \<Rightarrow> snd (parseAndStore c name bf (snd x)))"
  by (cases x; cases "fst x") auto

lemma switchBuildValid_env:
  "env_USE_OLD_BUILD (snd (switchBuildValid c name bf v s)) = env_USE_OLD_BUILD s"
  "tezosDeployedContracts (snd (switchBuildValid c name bf v s)) = tezosDeployedContracts s"
  by (cases v;
      auto simp: switchBuildValid_def handleOutdatedBuildfile_def called_fields
        split: option.splits sum.splits prod.splits)+






lemma validateContract_miss_registry:
  assumes "cache_hit s name = None"
  shows "tezosDeployedContracts (snd (validateContract c name s)) = tezosDeployedContracts s"
  by (simp add: validateContract_miss [OF assms] Let_def called_fields after_switch_snd
      switchBuildValid_env parseAndStore_frame switch_state_fields split: sum.splits)






subsection \<open>The cache of checked contracts\<close>

lemma validateContract_hit:
  assumes "cache_hit s name = Some v"
  shows "validateContract c name s = (Inr v, s)"
    and "cache_of s name = Some v"
    and "truthy v"
  using assms
  by (auto simp: validateContract_def Let_def cache_hit_def cache_of_def
      split: option.splits if_splits)


lemma demo_stale:
  "verdict demo_collab ''Foo'' ''edited source'' (demo_build 0) = INVALID_HASH"
  by (simp add: verdict_def demo_collab_def classify_def demo_build_def)

lemma demo_validate_fresh:
  assumes "cache_hit s ''Foo'' = None" "world s = 0" "env_USE_OLD_BUILD s = None"
    "config s = None"
  shows "validateContract demo_collab ''Foo'' s =
     (Inr (JArr [JNum (Finite 1)]),
      s\<lparr>world := 1, config := Some \<lparr>autoCompile = True\<rparr>,
        checkedContracts := Some ((cache_of s)(''Foo'' \<mapsto> JArr [JNum (Finite 1)])),
        trace := trace s @
          [Call_exists ''contracts/Foo.ligo'', Call_buildFileExists ''Foo'',
           Call_readContract ''Foo'', Call_generateHash ''edited source'',
           Call_readBuildFile ''Foo'', Call_isBuildValid ''contracts/Foo.ligo'' ''H2'',
           Call_readConfigFile, Call_compile ''Foo'', Call_JSON_parse ''[1]'']\<rparr>)"
proof -
  have sw: "at_switch demo_collab ''Foo'' s ''edited source'' (demo_build 0)"
    using assms by (simp add: at_switch_def demo_collab_def)
  have h: "handleOutdatedBuildfile demo_collab ''Foo''
             (switch_state demo_collab ''Foo'' ''edited source'' s) =
           (Inr (), (called (Call_compile ''Foo'')
               ((called Call_readConfigFile (switch_state demo_collab ''Foo'' ''edited source'' s))
                  \<lparr>config := Some \<lparr>autoCompile = True\<rparr>\<rparr>))\<lparr>world := 1\<rparr>)"
    using assms
    by (simp add: handleOutdatedBuildfile_def switch_state_fields called_fields demo_collab_def)
  have v: "validateContract demo_collab ''Foo'' s =
      parseAndStore demo_collab ''Foo'' (demo_build 0)
        ((called (Call_compile ''Foo'')
               ((called Call_readConfigFile (switch_state demo_collab ''Foo'' ''edited source'' s))
                  \<lparr>config := Some \<lparr>autoCompile = True\<rparr>\<rparr>))\<lparr>world := 1\<rparr>)"
    unfolding validateContract_to_switch [OF sw] demo_stale
    by (simp add: switchBuildValid_def h)
  show ?thesis
    unfolding v
    by (simp add: parseAndStore_def called_def switch_state_def switch_calls_def cache_of_def
        demo_collab_def demo_build_def)
qed






section \<open>Deployment\<close>

subsection \<open>What the signer setup and the validation leave untouched\<close>

lemma setSigner_set:
  "isSignerSet s \<Longrightarrow> setSigner c sg s = (Inr (), s)"
  by (simp add: setSigner_def)

lemma setSigner_frame:
  "tezosDeployedContracts (snd (setSigner c sg s)) = tezosDeployedContracts s"
  "checkedContracts (snd (setSigner c sg s)) = checkedContracts s"
  "tezosDefaultSigner (snd (setSigner c sg s)) = tezosDefaultSigner s"
  "calls is_originate (snd (setSigner c sg s)) = calls is_originate s"
  "calls is_validation (snd (setSigner c sg s)) = calls is_validation s"
  "calls is_readConfigFile (snd (setSigner c sg s)) = calls is_readConfigFile s"
  by (auto simp: setSigner_def called_fields calls_called
      split: TezosSigner.splits option.splits prod.splits)

lemma setSigner_ok:
  assumes "fst (setSigner c sg s) = Inr u"
  shows "isSignerSet (snd (setSigner c sg s))"
    and "tezos_signer (snd (setSigner c sg s)) = (if isSignerSet s then tezos_signer s else Some sg)"
  using assms
  by (auto simp: setSigner_def called_fields
      split: TezosSigner.splits option.splits prod.splits if_splits)

lemma setSigner_failed:
  assumes "fst (setSigner c sg s) = Inl e"
  shows "tezos_signer (snd (setSigner c sg s)) = tezos_signer s"
  using assms
  by (auto simp: setSigner_def called_fields
      split: TezosSigner.splits option.splits prod.splits if_splits)

lemma deployed_address_cong:
  "tezosDeployedContracts s1 = tezosDeployedContracts s2 \<Longrightarrow>
   deployed_address s1 name = deployed_address s2 name"
  by (simp add: deployed_address_def)

lemma handleOutdatedBuildfile_signer:
  "isSignerSet (snd (handleOutdatedBuildfile c name s)) = isSignerSet s"
  "tezos_signer (snd (handleOutdatedBuildfile c name s)) = tezos_signer s"
  "tezosDefaultSigner (snd (handleOutdatedBuildfile c name s)) = tezosDefaultSigner s"
  by (auto simp: handleOutdatedBuildfile_def called_fields
      split: option.splits sum.splits prod.splits)

lemma switchBuildValid_signer:
  "isSignerSet (snd (switchBuildValid c name bf v s)) = isSignerSet s"
  "tezos_signer (snd (switchBuildValid c name bf v s)) = tezos_signer s"
  "tezosDefaultSigner (snd (switchBuildValid c name bf v s)) = tezosDefaultSigner s"
  "calls is_originate (snd (switchBuildValid c name bf v s)) = calls is_originate s"
  using switchBuildValid_frame [of c name bf v s "fst (switchBuildValid c name bf v s)"
      "snd (switchBuildValid c name bf v s)"]
  by (cases v; simp add: switchBuildValid_def handleOutdatedBuildfile_signer)+

lemma parseAndStore_signer:
  "isSignerSet (snd (parseAndStore c name bf s)) = isSignerSet s"
  "tezos_signer (snd (parseAndStore c name bf s)) = tezos_signer s"
  "tezosDefaultSigner (snd (parseAndStore c name bf s)) = tezosDefaultSigner s"
  by (simp_all add: parseAndStore_def called_def split: sum.splits)

lemma switch_state_signer:
  "isSignerSet (switch_state c name contract s) = isSignerSet s"
  "tezos_signer (switch_state c name contract s) = tezos_signer s"
  "tezosDefaultSigner (switch_state c name contract s) = tezosDefaultSigner s"
  by (simp_all add: switch_state_def)

lemma validateContract_miss_signer:
  assumes "cache_hit s name = None"
  shows "isSignerSet (snd (validateContract c name s)) = isSignerSet s"
    and "tezos_signer (snd (validateContract c name s)) = tezos_signer s"
    and "tezosDefaultSigner (snd (validateContract c name s)) = tezosDefaultSigner s"
  by (simp_all add: validateContract_miss [OF assms] Let_def called_fields after_switch_snd
      switchBuildValid_signer parseAndStore_signer switch_state_signer split: sum.splits)

lemma validateContract_miss_originate:
  assumes "cache_hit s name = None"
  shows "calls is_originate (snd (validateContract c name s)) = calls is_originate s"
  by (simp add: validateContract_miss [OF assms] Let_def calls_called after_switch_snd
      switchBuildValid_signer parseAndStore_calls switch_state_calls split: sum.splits)

lemma validateContract_frame:
  "isSignerSet (snd (validateContract c name s)) = isSignerSet s"
  "tezos_signer (snd (validateContract c name s)) = tezos_signer s"
  "tezosDefaultSigner (snd (validateContract c name s)) = tezosDefaultSigner s"
  "tezosDeployedContracts (snd (validateContract c name s)) = tezosDeployedContracts s"
  "calls is_originate (snd (validateContract c name s)) = calls is_originate s"
  using validateContract_miss_signer [of s name c] validateContract_miss_originate [of s name c]
    validateContract_miss_registry [of s name c] validateContract_hit(1) [of s name _ c]
  by (cases "cache_hit s name"; simp)+

subsection \<open>A contract with a registered address\<close>

lemma deployContract_pinned:
  assumes "deployed_address s name = Some addr"
  shows "deployContract c name storage sg s =
    (case fst (setSigner c (tezosDefaultSigner s) s) of
       Inl e \<Rightarrow> (Inl e, snd (setSigner c (tezosDefaultSigner s) s))
     | Inr u \<Rightarrow>
        (case contract_at c (world (snd (setSigner c (tezosDefaultSigner s) s))) addr of
           Inl err \<Rightarrow>
             (Inl (Error (access_failed_message name addr err)),
              called (Call_contract_at addr) (snd (setSigner c (tezosDefaultSigner s) s)))
         | Inr res \<Rightarrow>
             (Inr res, called (Call_contract_at addr) (snd (setSigner c (tezosDefaultSigner s) s)))))"
proof -
  obtain r1 s1 where s1: "setSigner c (tezosDefaultSigner s) s = (r1, s1)"
    by (cases "setSigner c (tezosDefaultSigner s) s")
  have "tezosDeployedContracts s1 = tezosDeployedContracts s"
    using setSigner_frame(1) [of c "tezosDefaultSigner s" s] s1 by simp
  then have "deployed_address s1 name = Some addr"
    using assms by (simp add: deployed_address_def)
  then show ?thesis
    by (simp add: deployContract_def Let_def s1 split: sum.splits)
qed

text \<open>
  C4. Let the registry hold an address for the name, that is, a string that is not empty
  (the test of line 121 is a truthiness test). Then \<^verbatim>\<open>deployContract\<close> makes no
  origination, no call of the validation, no compilation and no read of the
  configuration, and leaves the cache of checked contracts alone. If setting the default
  signer fails, that error is the result. Otherwise the one call after the signer setup
  is the fetch at the registered address: its handle is returned, or, if it fails, the
  result is the error whose message contains the name of the contract and the address,
  and nothing is deployed instead.
\<close>

theorem pinned_contract_is_fetched:
  assumes "deployed_address s name = Some addr"
  shows "let r = fst (deployContract c name storage sg s);
             s' = snd (deployContract c name storage sg s);
             r1 = fst (setSigner c (tezosDefaultSigner s) s);
             s1 = snd (setSigner c (tezosDefaultSigner s) s) in
     calls is_originate s' = calls is_originate s
     \<and> calls is_validation s' = calls is_validation s
     \<and> calls is_readConfigFile s' = calls is_readConfigFile s
     \<and> checkedContracts s' = checkedContracts s
     \<and> (case r1 of
          Inl e \<Rightarrow> r = Inl e \<and> s' = s1
        | Inr u \<Rightarrow>
            s' = called (Call_contract_at addr) s1
            \<and> r = (case contract_at c (world s1) addr of
                     Inl err \<Rightarrow> Inl (Error (access_failed_message name addr err))
                   | Inr h \<Rightarrow> Inr h))
     \<and> sublist name (access_failed_message name addr err)
     \<and> sublist addr (access_failed_message name addr err)"
proof -
  have 1: "sublist name (access_failed_message name addr err)"
    unfolding access_failed_message_def by (metis append.assoc sublist_appendI)
  have 2: "sublist addr (access_failed_message name addr err)"
    unfolding access_failed_message_def by (metis append.assoc sublist_appendI)
  show ?thesis
    unfolding Let_def deployContract_pinned [OF assms]
    using 1 2
    by (simp add: setSigner_frame calls_called called_fields split: sum.splits)
qed

theorem pinned_contract_is_fetched_witness:
  "deployed_address (demo_state\<lparr>tezosDeployedContracts := Some [''Foo'' \<mapsto> ''KT1Foo'']\<rparr>)
     ''Foo'' = Some ''KT1Foo''
   \<and> deployContract demo_collab ''Foo'' ''storage'' None
       (demo_state\<lparr>tezosDeployedContracts := Some [''Foo'' \<mapsto> ''KT1Foo'']\<rparr>) =
       (Inr ''KT1Foo'',
        demo_state\<lparr>tezosDeployedContracts := Some [''Foo'' \<mapsto> ''KT1Foo''],
          isSignerSet := True, tezos_signer := Some (SecretKey ''edsk-alice''),
          trace := [Call_setProvider ''edsk-alice'', Call_contract_at ''KT1Foo'']\<rparr>)
   \<and> deployed_address (demo_state\<lparr>tezosDeployedContracts := Some [''Foo'' \<mapsto> ''KT1Gone'']\<rparr>)
     ''Foo'' = Some ''KT1Gone''
   \<and> deployContract demo_collab ''Foo'' ''storage'' None
       (demo_state\<lparr>tezosDeployedContracts := Some [''Foo'' \<mapsto> ''KT1Gone'']\<rparr>) =
       (Inl (Error (access_failed_message ''Foo'' ''KT1Gone''
                      (Error ''Http error response: (404)''))),
        demo_state\<lparr>tezosDeployedContracts := Some [''Foo'' \<mapsto> ''KT1Gone''],
          isSignerSet := True, tezos_signer := Some (SecretKey ''edsk-alice''),
          trace := [Call_setProvider ''edsk-alice'', Call_contract_at ''KT1Gone'']\<rparr>)"
proof -
  let ?p = "demo_state\<lparr>tezosDeployedContracts := Some [''Foo'' \<mapsto> ''KT1Foo'']\<rparr>"
  let ?g = "demo_state\<lparr>tezosDeployedContracts := Some [''Foo'' \<mapsto> ''KT1Gone'']\<rparr>"
  have p: "deployed_address ?p ''Foo'' = Some ''KT1Foo''"
    and g: "deployed_address ?g ''Foo'' = Some ''KT1Gone''"
    by (simp_all add: deployed_address_def)
  have sp: "setSigner demo_collab (tezosDefaultSigner demo_state) ?p =
      (Inr (), ?p\<lparr>isSignerSet := True, tezos_signer := Some (SecretKey ''edsk-alice''),
                 trace := [Call_setProvider ''edsk-alice'']\<rparr>)"
    and sg: "setSigner demo_collab (tezosDefaultSigner demo_state) ?g =
      (Inr (), ?g\<lparr>isSignerSet := True, tezos_signer := Some (SecretKey ''edsk-alice''),
                 trace := [Call_setProvider ''edsk-alice'']\<rparr>)"
    by (simp_all add: setSigner_def demo_state_def demo_collab_def called_def)
  have c: "contract_at demo_collab w ''KT1Foo'' = Inr ''KT1Foo''"
    "contract_at demo_collab w ''KT1Gone'' = Inl (Error ''Http error response: (404)'')" for w
    by (simp_all add: demo_collab_def)
  show ?thesis
    using pinned_contract_is_fetched [OF p, of demo_collab "''storage''" None]
      pinned_contract_is_fetched [OF g, of demo_collab "''storage''" None] p g
    by (simp add: Let_def sp sg c called_def prod_eq_iff)
qed

subsection \<open>A contract without a registered address\<close>

lemma deployContract_fresh:
  assumes "deployed_address s name = None"
  shows "deployContract c name storage sg s =
    (let s1 = snd (setSigner c (tezosDefaultSigner s) s) in
     case fst (setSigner c (tezosDefaultSigner s) s) of
       Inl e \<Rightarrow> (Inl e, s1)
     | Inr u \<Rightarrow>
        (case readConfigFile c (world s1) of
           Inl e \<Rightarrow> (Inl e, called Call_readConfigFile s1)
         | Inr cfg \<Rightarrow>
            (let s2 = snd (validateContract c name (called Call_readConfigFile s1)) in
             case fst (validateContract c name (called Call_readConfigFile s1)) of
               Inl e \<Rightarrow> (Inl e, s2)
             | Inr code \<Rightarrow>
                if \<not> truthy code then (Inl (Error (unable_message name)), s2)
                else
                (let s4 = (called Call_originate s2)
                            \<lparr>world := snd (originate c code storage (world s2))\<rparr> in
                 case fst (originate c code storage (world s2)) of
                   Inl err \<Rightarrow> (Inl (Error (deploy_failed_message name err)), s4)
                 | Inr op \<Rightarrow>
                    (case op_contract c op (world s4) of
                       Inl err \<Rightarrow>
                         (Inl (Error (deploy_failed_message name err)),
                          called Call_op_contract s4)
                     | Inr res \<Rightarrow> (Inr res, called Call_op_contract s4))))))"
proof -
  obtain r1 s1 where s1: "setSigner c (tezosDefaultSigner s) s = (r1, s1)"
    by (cases "setSigner c (tezosDefaultSigner s) s")
  have "tezosDeployedContracts s1 = tezosDeployedContracts s"
    using setSigner_frame(1) [of c "tezosDefaultSigner s" s] s1 by simp
  then have d: "deployed_address s1 name = None"
    using assms by (simp add: deployed_address_def)
  show ?thesis
  proof (cases r1)
    case (Inl e)
    then show ?thesis by (simp add: deployContract_def Let_def s1)
  next
    case (Inr u)
    then have "isSignerSet s1"
      using setSigner_ok(1) [of c "tezosDefaultSigner s" s u] s1 by simp
    then have set: "isSignerSet (snd (validateContract c name (called Call_readConfigFile s1)))"
      by (simp add: validateContract_frame called_fields)
    obtain r2 s2 where s2: "validateContract c name (called Call_readConfigFile s1) = (r2, s2)"
      by (cases "validateContract c name (called Call_readConfigFile s1)")
    have "setSigner c sg' s2 = (Inr (), s2)" for sg'
      using set s2 by (simp add: setSigner_set)
    then show ?thesis
      using Inr
      by (simp add: deployContract_def Let_def s1 d s2
          split: sum.splits prod.splits)
  qed
qed

lemma deployContract_registry:
  "tezosDeployedContracts (snd (deployContract c name storage sg s)) = tezosDeployedContracts s"
proof (cases "deployed_address s name")
  case None
  show ?thesis
    unfolding deployContract_fresh [OF None]
    by (simp add: Let_def setSigner_frame validateContract_frame called_fields
        split: sum.splits)
next
  case (Some addr)
  show ?thesis
    unfolding deployContract_pinned [OF Some]
    by (simp add: setSigner_frame called_fields split: sum.splits)
qed

lemma deployContract_originates_once:
  assumes "deployed_address s name = None"
    and "fst (deployContract c name storage sg s) = Inr h"
  shows "calls is_originate (snd (deployContract c name storage sg s)) =
           calls is_originate s + 1"
  using assms(2) unfolding deployContract_fresh [OF assms(1)]
  by (auto simp: Let_def setSigner_frame validateContract_frame calls_called
      split: sum.splits if_splits)

lemma deployContract_ignores_signer:
  "deployContract c name storage sg s = deployContract c name storage None s"
proof (cases "deployed_address s name")
  case None
  show ?thesis
    by (simp add: deployContract_fresh [OF None])
next
  case (Some addr)
  show ?thesis
    by (simp add: deployContract_pinned [OF Some])
qed

lemma deployContract_signer:
  "tezos_signer (snd (deployContract c name storage sg s)) =
     (case fst (setSigner c (tezosDefaultSigner s) s) of
        Inl e \<Rightarrow> tezos_signer s
      | Inr u \<Rightarrow> if isSignerSet s then tezos_signer s else Some (tezosDefaultSigner s))"
proof (cases "deployed_address s name")
  case None
  show ?thesis
    unfolding deployContract_fresh [OF None]
    by (simp add: Let_def setSigner_ok setSigner_failed validateContract_frame called_fields
        split: sum.splits)
next
  case (Some addr)
  show ?thesis
    unfolding deployContract_pinned [OF Some]
    by (simp add: setSigner_ok setSigner_failed called_fields split: sum.splits)
qed

lemma demo_setSigner:
  "setSigner demo_collab (SecretKey k) demo_state =
     (Inr (), (called (Call_setProvider k) demo_state)
                \<lparr>isSignerSet := True, tezos_signer := Some (SecretKey k)\<rparr>)"
  by (simp add: setSigner_def demo_state_def demo_collab_def)

lemma demo_deploy:
  "deployContract demo_collab ''Foo'' storage sg demo_state =
     (Inr ''KT1New'',
      demo_state\<lparr>world := 1, isSignerSet := True,
        tezos_signer := Some (SecretKey ''edsk-alice''),
        config := Some \<lparr>autoCompile = True\<rparr>,
        checkedContracts := Some [''Foo'' \<mapsto> JArr [JNum (Finite 1)]],
        trace :=
          [Call_setProvider ''edsk-alice'', Call_readConfigFile,
           Call_exists ''contracts/Foo.ligo'', Call_buildFileExists ''Foo'',
           Call_readContract ''Foo'', Call_generateHash ''edited source'',
           Call_readBuildFile ''Foo'', Call_isBuildValid ''contracts/Foo.ligo'' ''H2'',
           Call_readConfigFile, Call_compile ''Foo'', Call_JSON_parse ''[1]'',
           Call_originate, Call_op_contract]\<rparr>)"
proof -
  let ?s1 = "(called (Call_setProvider ''edsk-alice'') demo_state)
                \<lparr>isSignerSet := True, tezos_signer := Some (SecretKey ''edsk-alice'')\<rparr>"
  have d: "deployed_address demo_state ''Foo'' = None"
    "tezosDefaultSigner demo_state = SecretKey ''edsk-alice''"
    by (simp_all add: deployed_address_def demo_state_def)
  have f: "cache_hit (called Call_readConfigFile ?s1) ''Foo'' = None"
    "world (called Call_readConfigFile ?s1) = 0"
    "env_USE_OLD_BUILD (called Call_readConfigFile ?s1) = None"
    "config (called Call_readConfigFile ?s1) = None"
    by (simp_all add: called_def cache_hit_def cache_of_def demo_state_def)
  have r: "readConfigFile demo_collab w = Inr \<lparr>autoCompile = True\<rparr>" for w
    by (simp add: demo_collab_def)
  show ?thesis
    unfolding deployContract_fresh [OF d(1)] d(2) demo_setSigner
    by (simp add: Let_def r demo_validate_fresh [OF f])
       (simp add: demo_collab_def called_def cache_of_def demo_state_def)
qed

lemma demo_deploy_cached:
  assumes "isSignerSet s" "deployed_address s ''Foo'' = None"
    "cache_of s ''Foo'' = Some code" "truthy code"
  shows "deployContract demo_collab ''Foo'' storage sg s =
     (Inr ''KT1New'',
      called Call_op_contract (called Call_originate (called Call_readConfigFile s)))"
proof -
  have h: "cache_hit (called Call_readConfigFile s) ''Foo'' = Some code"
    using assms(3,4) by (simp add: cache_hit_def cache_of_def called_def)
  have r: "readConfigFile demo_collab w = Inr \<lparr>autoCompile = True\<rparr>" for w
    by (simp add: demo_collab_def)
  show ?thesis
    unfolding deployContract_fresh [OF assms(2)]
    by (simp add: Let_def setSigner_set [OF assms(1)] r validateContract_hit(1) [OF h])
       (simp add: demo_collab_def called_def assms(4))
qed

text \<open>
  C9. No call of \<^verbatim>\<open>deployContract\<close> changes the registry. So when the registry has no
  address for the name, a call that succeeds has made exactly one origination and the
  registry still has no address for the name; a second call that succeeds has made one
  more.
\<close>

theorem registry_not_written_back:
  "let r = fst (deployContract c name storage sg s);
       s' = snd (deployContract c name storage sg s) in
     tezosDeployedContracts s' = tezosDeployedContracts s
     \<and> (deployed_address s name = None \<longrightarrow>
          (\<forall>h. r = Inr h \<longrightarrow>
             calls is_originate s' = calls is_originate s + 1
             \<and> deployed_address s' name = None
             \<and> (\<forall>h2. fst (deployContract c name storage2 sg2 s') = Inr h2 \<longrightarrow>
                  calls is_originate (snd (deployContract c name storage2 sg2 s')) =
                    calls is_originate s + 2)))"
proof -
  let ?s' = "snd (deployContract c name storage sg s)"
  have reg: "tezosDeployedContracts ?s' = tezosDeployedContracts s"
    by (rule deployContract_registry)
  have "calls is_originate ?s' = calls is_originate s + 1
      \<and> deployed_address ?s' name = None
      \<and> (\<forall>h2. fst (deployContract c name storage2 sg2 ?s') = Inr h2 \<longrightarrow>
                  calls is_originate (snd (deployContract c name storage2 sg2 ?s')) =
                    calls is_originate s + 2)"
    if none: "deployed_address s name = None"
      and ok: "fst (deployContract c name storage sg s) = Inr h" for h
  proof -
    have one: "calls is_originate ?s' = calls is_originate s + 1"
      using none ok by (rule deployContract_originates_once)
    have none': "deployed_address ?s' name = None"
      using none deployed_address_cong [OF reg] by simp
    have "calls is_originate (snd (deployContract c name storage2 sg2 ?s')) =
                    calls is_originate s + 2"
      if "fst (deployContract c name storage2 sg2 ?s') = Inr h2" for h2
      using deployContract_originates_once [OF none' that] one by simp
    then show ?thesis using one none' by blast
  qed
  then show ?thesis
    unfolding Let_def using reg by blast
qed

theorem registry_not_written_back_witness:
  "deployed_address demo_state ''Foo'' = None
   \<and> fst (deployContract demo_collab ''Foo'' ''storage'' None demo_state) = Inr ''KT1New''
   \<and> tezosDeployedContracts (snd (deployContract demo_collab ''Foo'' ''storage'' None demo_state))
       = None
   \<and> calls is_originate (snd (deployContract demo_collab ''Foo'' ''storage'' None demo_state)) = 1
   \<and> fst (deployContract demo_collab ''Foo'' ''storage'' None
            (snd (deployContract demo_collab ''Foo'' ''storage'' None demo_state)))
       = Inr ''KT1New''
   \<and> calls is_originate
       (snd (deployContract demo_collab ''Foo'' ''storage'' None
               (snd (deployContract demo_collab ''Foo'' ''storage'' None demo_state)))) = 2"
proof -
  let ?s' = "snd (deployContract demo_collab ''Foo'' ''storage'' None demo_state)"
  have d: "deployed_address demo_state ''Foo'' = None" "calls is_originate demo_state = 0"
    "tezosDeployedContracts demo_state = None"
    by (simp_all add: deployed_address_def demo_state_def calls_def)
  have a: "fst (deployContract demo_collab ''Foo'' ''storage'' None demo_state) = Inr ''KT1New''"
    by (simp add: demo_deploy)
  have s': "isSignerSet ?s'" "deployed_address ?s' ''Foo'' = None"
    "cache_of ?s' ''Foo'' = Some (JArr [JNum (Finite 1)])" "truthy (JArr [JNum (Finite 1)])"
    unfolding demo_deploy
    by (simp_all add: deployed_address_def cache_of_def demo_state_def)
  have b: "fst (deployContract demo_collab ''Foo'' ''storage'' None ?s') = Inr ''KT1New''"
    by (simp add: demo_deploy_cached [OF s'])
  show ?thesis
    using registry_not_written_back
            [of demo_collab "''Foo''" "''storage''" None demo_state "''storage''" None] d a b
    by (simp add: Let_def)
qed

subsection \<open>The signer argument\<close>

text \<open>
  C3 does not hold of the code. \<^verbatim>\<open>isSignerSet\<close> is one flag for the module, and the
  first call of \<^verbatim>\<open>_setSigner\<close> (line 119, with the default signer) sets it; the call of
  line 142 with the signer argument then returns at line 27. Lemma
  \<open>deployContract_ignores_signer\<close> above says that the argument has no effect at all,
  and \<open>deployContract_signer\<close> that the toolkit ends with the signer it had or with the
  default signer. Here the default signer is the key of alice and the caller passes the
  key of bob: the contract is originated, the only signer ever given to the toolkit is
  alice's, and it is the signer at the end.
\<close>

theorem caller_signer_not_established:
  "tezosDefaultSigner demo_state = SecretKey ''edsk-alice''
   \<and> fst (deployContract demo_collab ''Foo'' ''storage'' (Some (SecretKey ''edsk-bob'')) demo_state)
       = Inr ''KT1New''
   \<and> tezos_signer
       (snd (deployContract demo_collab ''Foo'' ''storage'' (Some (SecretKey ''edsk-bob''))
               demo_state))
       = Some (SecretKey ''edsk-alice'')
   \<and> trace
       (snd (deployContract demo_collab ''Foo'' ''storage'' (Some (SecretKey ''edsk-bob''))
               demo_state))
       = [Call_setProvider ''edsk-alice'', Call_readConfigFile,
          Call_exists ''contracts/Foo.ligo'', Call_buildFileExists ''Foo'',
          Call_readContract ''Foo'', Call_generateHash ''edited source'',
          Call_readBuildFile ''Foo'', Call_isBuildValid ''contracts/Foo.ligo'' ''H2'',
          Call_readConfigFile, Call_compile ''Foo'', Call_JSON_parse ''[1]'',
          Call_originate, Call_op_contract]"
  by (simp add: demo_deploy) (simp add: demo_state_def)

end
